theory Spec2Isabelle
  imports Main "HOL-Library.AList"
begin

chapter \<open>NodeScope: entry capture, storage backends, API handler and heartbeat\<close>

text \<open>
  A shallow embedding of the core of NodeScope (packages/core/src): the entry model, the
  four storage backends, the request, query, cache and HTTP-client watchers, the API
  handler and the heartbeat of the real-time server. State is passed explicitly, a
  thrown exception is the left summand of a result, and a promise is the value it
  settles to. The definitions come first, the properties after them.
\<close>

section \<open>Entry model (types.ts)\<close>

datatype EntryType =
  Request | Query | Cache | Log | Exception | HttpClient | Event | Job | Schedule | Dump

text \<open>
  An \<open>Entry\<close> as declared in types.ts. The field \<open>id\<close> of the source is \<open>entry_id\<close>
  here (\<open>id\<close> is the identity function of HOL). The type of \<open>content\<close> is a parameter,
  as it is of \<open>BaseWatcher<TContent>\<close>; \<open>createdAt\<close> is the Date's time value in
  milliseconds since the epoch, and an absent optional field is \<open>None\<close>.
\<close>

record 'c Entry =
  entry_id :: string
  batchId :: string
  type :: EntryType
  content :: 'c
  tags :: "string list"
  createdAt :: int
  duration :: "int option"
  memoryUsage :: "int option"

text \<open>
  The storage backends see the content of an entry through \<open>JSON.stringify\<close> only:
  a stored entry carries the JSON text of its content object.
\<close>

type_synonym StoredEntry = "string Entry"

section \<open>MemoryStorage (storage/memory.ts)\<close>

text \<open>
  A JavaScript \<open>Map\<close> iterates in insertion order and \<open>set\<close> on a present key keeps
  the key's position: an association list with \<open>AList.update\<close> (replace in place, or
  append) and \<open>AList.delete\<close>. A \<open>Set\<close> of ids is a list without duplicates, in
  insertion order.
\<close>

record MemoryStorage =
  entries :: "(string \<times> StoredEntry) list"
  entriesByBatch :: "(string \<times> string list) list"
  entriesByType :: "(EntryType \<times> string list) list"
  maxEntries :: nat

definition MemoryStorage_new :: "nat option \<Rightarrow> MemoryStorage" where
  "MemoryStorage_new opt =
     \<lparr>entries = [], entriesByBatch = [], entriesByType = [],
      maxEntries = (case opt of None \<Rightarrow> 1000 | Some n \<Rightarrow> n)\<rparr>"

definition Set_add :: "'a \<Rightarrow> 'a list \<Rightarrow> 'a list" where
  "Set_add x xs = (if x \<in> set xs then xs else xs @ [x])"

definition Set_delete :: "'a \<Rightarrow> 'a list \<Rightarrow> 'a list" where
  "Set_delete x xs = removeAll x xs"

definition index_add :: "'k \<Rightarrow> string \<Rightarrow> ('k \<times> string list) list \<Rightarrow> ('k \<times> string list) list" where
  "index_add k i m =
     (let m1 = (if map_of m k = None then AList.update k [] m else m)
      in AList.update k (Set_add i (case map_of m1 k of Some s \<Rightarrow> s | None \<Rightarrow> [])) m1)"

definition index_remove :: "'k \<Rightarrow> string \<Rightarrow> ('k \<times> string list) list \<Rightarrow> ('k \<times> string list) list" where
  "index_remove k i m =
     (case map_of m k of None \<Rightarrow> m | Some s \<Rightarrow> AList.update k (Set_delete i s) m)"

definition addToIndexes :: "StoredEntry \<Rightarrow> MemoryStorage \<Rightarrow> MemoryStorage" where
  "addToIndexes e st =
     st\<lparr>entriesByBatch := index_add (batchId e) (entry_id e) (entriesByBatch st),
        entriesByType := index_add (type e) (entry_id e) (entriesByType st)\<rparr>"

definition removeFromIndexes :: "StoredEntry \<Rightarrow> MemoryStorage \<Rightarrow> MemoryStorage" where
  "removeFromIndexes e st =
     st\<lparr>entriesByBatch := index_remove (batchId e) (entry_id e) (entriesByBatch st),
        entriesByType := index_remove (type e) (entry_id e) (entriesByType st)\<rparr>"

text \<open>
  The eviction loop of \<open>save\<close>: \<open>toRemove\<close> calls of \<open>iterator.next().value\<close> on the
  key iterator. A key is skipped when it is falsy: \<open>undefined\<close> (the iterator is
  exhausted) or the empty string. Only keys the iterator has passed are deleted, so the
  iterator yields the keys the map had when the loop began.
\<close>

fun evict :: "nat \<Rightarrow> string list \<Rightarrow> MemoryStorage \<Rightarrow> MemoryStorage" where
  "evict 0 ks st = st"
| "evict (Suc n) [] st = evict n [] st"
| "evict (Suc n) (oldestKey # ks) st =
     evict n ks
       (if oldestKey \<noteq> [] then
          (let st1 = (case map_of (entries st) oldestKey of
                        Some oldEntry \<Rightarrow> removeFromIndexes oldEntry st
                      | None \<Rightarrow> st)
           in st1\<lparr>entries := AList.delete oldestKey (entries st1)\<rparr>)
        else st)"

text \<open>
  \<open>Math.floor(this.maxEntries * 0.1)\<close> is \<open>maxEntries div 10\<close> for a whole number
  \<open>maxEntries\<close>: the double nearest to 0.1 lies a little above one tenth, and the
  rounded product is never below the exact tenth nor as large as the next whole number.
\<close>

definition MemoryStorage_save :: "StoredEntry \<Rightarrow> MemoryStorage \<Rightarrow> MemoryStorage" where
  "MemoryStorage_save e st =
     (let st1 = (if length (entries st) \<ge> maxEntries st
                 then evict (maxEntries st div 10) (map fst (entries st)) st
                 else st)
      in addToIndexes e (st1\<lparr>entries := AList.update (entry_id e) e (entries st1)\<rparr>))"

fun MemoryStorage_saveBatch :: "StoredEntry list \<Rightarrow> MemoryStorage \<Rightarrow> MemoryStorage" where
  "MemoryStorage_saveBatch [] st = st"
| "MemoryStorage_saveBatch (e # es) st = MemoryStorage_saveBatch es (MemoryStorage_save e st)"

definition MemoryStorage_find :: "string \<Rightarrow> MemoryStorage \<Rightarrow> StoredEntry option" where
  "MemoryStorage_find i st = map_of (entries st) i"

text \<open>
  \<open>prune\<close> walks the map with \<open>for ... of\<close> and deletes the entry it is visiting, which
  a Map iterator allows; the result is the count and the store left behind.
\<close>

fun prune_loop :: "int \<Rightarrow> (string \<times> StoredEntry) list \<Rightarrow> nat \<times> MemoryStorage \<Rightarrow> nat \<times> MemoryStorage" where
  "prune_loop beforeDate [] acc = acc"
| "prune_loop beforeDate ((i, e) # rest) (pruned, st) =
     prune_loop beforeDate rest
       (if createdAt e < beforeDate
        then (let st1 = removeFromIndexes e st
              in (pruned + 1, st1\<lparr>entries := AList.delete i (entries st1)\<rparr>))
        else (pruned, st))"

definition MemoryStorage_prune :: "int \<Rightarrow> MemoryStorage \<Rightarrow> nat \<times> MemoryStorage" where
  "MemoryStorage_prune beforeDate st = prune_loop beforeDate (entries st) (0, st)"

definition MemoryStorage_clear :: "MemoryStorage \<Rightarrow> MemoryStorage" where
  "MemoryStorage_clear st = st\<lparr>entries := [], entriesByBatch := [], entriesByType := []\<rparr>"


subsection \<open>Strings of the platform\<close>

text \<open>
  Strings are byte strings; \<open>toLowerCase\<close> is modelled on the ASCII letters, and
  \<open>includes\<close> (here \<open>includes_str\<close>) and \<open>startsWith\<close> compare bytes.
\<close>

definition toLowerCase_char :: "char \<Rightarrow> char" where
  "toLowerCase_char c =
     (if 65 \<le> (of_char c :: nat) \<and> (of_char c :: nat) \<le> 90
      then char_of ((of_char c :: nat) + 32) else c)"

definition toLowerCase :: "string \<Rightarrow> string" where
  "toLowerCase s = map toLowerCase_char s"

definition startsWith :: "string \<Rightarrow> string \<Rightarrow> bool" where
  "startsWith s p = (take (length p) s = p)"

fun includes_str :: "string \<Rightarrow> string \<Rightarrow> bool" where
  "includes_str [] needle = (needle = [])"
| "includes_str (c # cs) needle = (startsWith (c # cs) needle \<or> includes_str cs needle)"

text \<open>\<open>Array.prototype.slice(start, end)\<close>: a negative index counts from the end.\<close>

definition js_slice :: "'a list \<Rightarrow> int \<Rightarrow> int \<Rightarrow> 'a list" where
  "js_slice xs start fin =
     (let len = int (length xs);
          k = (if start < 0 then max (len + start) 0 else min start len);
          final = (if fin < 0 then max (len + fin) 0 else min fin len)
      in take (nat (final - k)) (drop (nat k) xs))"

subsection \<open>list and findByBatch\<close>

text \<open>
  \<open>ListOptions\<close> and \<open>PaginatedResult\<close> of types.ts; an option that is not supplied is
  \<open>None\<close>. A supplied string is used only when it is truthy, that is non-empty.
\<close>

record ListOptions =
  opt_type :: "EntryType option"
  opt_batchId :: "string option"
  opt_tags :: "string list option"
  opt_search :: "string option"
  opt_before :: "int option"
  opt_after :: "int option"
  opt_limit :: "int option"
  opt_offset :: "int option"

record PaginatedResult =
  data :: "StoredEntry list"
  total :: nat
  limit :: int
  offset :: int
  hasMore :: bool

definition truthy :: "string option \<Rightarrow> bool" where
  "truthy s = (case s of None \<Rightarrow> False | Some v \<Rightarrow> v \<noteq> [])"

definition tags_given :: "string list option \<Rightarrow> bool" where
  "tags_given t = (case t of None \<Rightarrow> False | Some ts \<Rightarrow> length ts > 0)"

definition has_some_tag :: "string list \<Rightarrow> StoredEntry \<Rightarrow> bool" where
  "has_some_tag ts e = list_ex (\<lambda>t. t \<in> set (tags e)) ts"

definition lookup_ids :: "MemoryStorage \<Rightarrow> string list \<Rightarrow> StoredEntry list" where
  "lookup_ids st ids = List.map_filter (\<lambda>i. map_of (entries st) i) ids"

definition MemoryStorage_list :: "ListOptions \<Rightarrow> MemoryStorage \<Rightarrow> PaginatedResult" where
  "MemoryStorage_list options st =
     (let lim = (case opt_limit options of None \<Rightarrow> 50 | Some l \<Rightarrow> l);
          off = (case opt_offset options of None \<Rightarrow> 0 | Some k \<Rightarrow> k);
          r0 = (case opt_type options of
                  Some t \<Rightarrow>
                    (case map_of (entriesByType st) t of
                       Some typeIds \<Rightarrow> lookup_ids st typeIds
                     | None \<Rightarrow> [])
                | None \<Rightarrow>
                    if truthy (opt_batchId options) then
                      (case map_of (entriesByBatch st) (the (opt_batchId options)) of
                         Some batchIds \<Rightarrow> lookup_ids st batchIds
                       | None \<Rightarrow> [])
                    else map snd (entries st));
          r1 = (if tags_given (opt_tags options)
                then filter (has_some_tag (the (opt_tags options))) r0 else r0);
          r2 = (if truthy (opt_search options)
                then filter (\<lambda>e. includes_str (toLowerCase (content e))
                                         (toLowerCase (the (opt_search options)))) r1
                else r1);
          r3 = (case opt_before options of
                  Some b \<Rightarrow> filter (\<lambda>e. createdAt e < b) r2 | None \<Rightarrow> r2);
          r4 = (case opt_after options of
                  Some a \<Rightarrow> filter (\<lambda>e. createdAt e > a) r3 | None \<Rightarrow> r3);
          results = sort_key (\<lambda>e. - createdAt e) r4
      in \<lparr>data = js_slice results off (off + lim),
          total = length results,
          limit = lim,
          offset = off,
          hasMore = (off + lim < int (length results))\<rparr>)"

definition MemoryStorage_findByBatch :: "string \<Rightarrow> MemoryStorage \<Rightarrow> StoredEntry list" where
  "MemoryStorage_findByBatch b st =
     (case map_of (entriesByBatch st) b of
        None \<Rightarrow> []
      | Some ids \<Rightarrow> sort_key createdAt (lookup_ids st ids))"


section \<open>The SQL backends (storage/sqlite.ts, storage/mysql.ts, storage/postgresql.ts)\<close>

text \<open>
  A table is the list of its rows, and a row holds the entry it was written from:
  \<open>rowToEntry\<close> undoes the encoding of \<open>save\<close> (\<open>JSON.stringify\<close> and \<open>JSON.parse\<close> for
  content and tags, \<open>toISOString\<close> and \<open>new Date\<close> for \<open>created_at\<close>), and the ISO text of
  a timestamp with a four-digit year orders as the timestamp does. Each statement is
  modelled by what it selects or changes; \<open>ORDER BY\<close> is the stable sort on the key.
\<close>

type_synonym table = "StoredEntry list"

subsection \<open>SQLiteStorage\<close>

definition SQLiteStorage_save :: "StoredEntry \<Rightarrow> table \<Rightarrow> table" where
  \<comment> \<open>\<open>INSERT OR REPLACE\<close>: the row with this primary key is deleted, the new row inserted.\<close>
  "SQLiteStorage_save e rows = filter (\<lambda>r. entry_id r \<noteq> entry_id e) rows @ [e]"

fun SQLiteStorage_saveBatch :: "StoredEntry list \<Rightarrow> table \<Rightarrow> table" where
  "SQLiteStorage_saveBatch [] rows = rows"
| "SQLiteStorage_saveBatch (e # es) rows = SQLiteStorage_saveBatch es (SQLiteStorage_save e rows)"

definition SQLiteStorage_find :: "string \<Rightarrow> table \<Rightarrow> StoredEntry option" where
  "SQLiteStorage_find i rows = List.find (\<lambda>r. entry_id r = i) rows"

text \<open>
  \<open>LIKE\<close> of SQLite: \<open>%\<close> matches any run of characters, \<open>_\<close> one character, and
  ASCII letters match without regard to case.
\<close>

fun sql_like :: "string \<Rightarrow> string \<Rightarrow> bool" where
  "sql_like [] s = (s = [])"
| "sql_like (p # ps) [] = (p = CHR ''%'' \<and> sql_like ps [])"
| "sql_like (p # ps) (c # cs) =
     (if p = CHR ''%'' then sql_like ps (c # cs) \<or> sql_like (p # ps) cs
      else (p = CHR ''_'' \<or> toLowerCase_char p = toLowerCase_char c) \<and> sql_like ps cs)"

text \<open>\<open>LIMIT l OFFSET k\<close> of SQLite: a negative limit is no limit, a negative offset is 0.\<close>

definition sql_limit_offset :: "int \<Rightarrow> int \<Rightarrow> 'a list \<Rightarrow> 'a list" where
  "sql_limit_offset l k xs =
     (let ys = drop (nat k) xs in if l < 0 then ys else take (nat l) ys)"

definition sql_where :: "ListOptions \<Rightarrow> StoredEntry \<Rightarrow> bool" where
  "sql_where options r =
     ((case opt_type options of Some t \<Rightarrow> type r = t | None \<Rightarrow> True) \<and>
      (if truthy (opt_batchId options) then batchId r = the (opt_batchId options) else True) \<and>
      (case opt_before options of Some b \<Rightarrow> createdAt r < b | None \<Rightarrow> True) \<and>
      (case opt_after options of Some a \<Rightarrow> createdAt r > a | None \<Rightarrow> True) \<and>
      (if truthy (opt_search options)
       then sql_like (''%'' @ the (opt_search options) @ ''%'') (content r) else True))"

definition SQLiteStorage_list :: "ListOptions \<Rightarrow> table \<Rightarrow> PaginatedResult" where
  "SQLiteStorage_list options rows =
     (let lim = (case opt_limit options of None \<Rightarrow> 50 | Some l \<Rightarrow> l);
          off = (case opt_offset options of None \<Rightarrow> 0 | Some k \<Rightarrow> k);
          count = length (filter (sql_where options) rows);
          selected = sql_limit_offset lim off
                       (sort_key (\<lambda>r. - createdAt r) (filter (sql_where options) rows));
          filteredData = (if tags_given (opt_tags options)
                          then filter (has_some_tag (the (opt_tags options))) selected
                          else selected)
      in \<lparr>data = filteredData,
          total = count,
          limit = lim,
          offset = off,
          hasMore = (off + lim < int count)\<rparr>)"

definition SQLiteStorage_findByBatch :: "string \<Rightarrow> table \<Rightarrow> StoredEntry list" where
  "SQLiteStorage_findByBatch b rows = sort_key createdAt (filter (\<lambda>r. batchId r = b) rows)"


subsection \<open>MySQLStorage and PostgreSQLStorage\<close>

definition sql_upsert :: "StoredEntry \<Rightarrow> table \<Rightarrow> table" where
  \<comment> \<open>\<open>INSERT ... ON DUPLICATE KEY UPDATE\<close> and \<open>ON CONFLICT (id) DO UPDATE SET\<close>:
      content, tags, duration and memory_usage of the present row are assigned.\<close>
  "sql_upsert e rows =
     (if list_ex (\<lambda>r. entry_id r = entry_id e) rows
      then map (\<lambda>r. if entry_id r = entry_id e
                     then r\<lparr>content := content e, tags := tags e,
                            duration := duration e, memoryUsage := memoryUsage e\<rparr>
                     else r) rows
      else rows @ [e])"

definition MySQLStorage_save :: "StoredEntry \<Rightarrow> table \<Rightarrow> table" where
  "MySQLStorage_save e rows = sql_upsert e rows"

definition MySQLStorage_find :: "string \<Rightarrow> table \<Rightarrow> StoredEntry option" where
  "MySQLStorage_find i rows = List.find (\<lambda>r. entry_id r = i) rows"

definition MySQLStorage_findByBatch :: "string \<Rightarrow> table \<Rightarrow> StoredEntry list" where
  "MySQLStorage_findByBatch b rows = sort_key createdAt (filter (\<lambda>r. batchId r = b) rows)"


definition PostgreSQLStorage_save :: "StoredEntry \<Rightarrow> table \<Rightarrow> table" where
  "PostgreSQLStorage_save e rows = sql_upsert e rows"

definition PostgreSQLStorage_find :: "string \<Rightarrow> table \<Rightarrow> StoredEntry option" where
  "PostgreSQLStorage_find i rows = List.find (\<lambda>r. entry_id r = i) rows"

definition PostgreSQLStorage_findByBatch :: "string \<Rightarrow> table \<Rightarrow> StoredEntry list" where
  "PostgreSQLStorage_findByBatch b rows = sort_key createdAt (filter (\<lambda>r. batchId r = b) rows)"


section \<open>Values and errors of the platform\<close>

text \<open>
  The values a watcher is handed as \<open>unknown\<close>. Numbers are the integers; \<open>JFunction\<close>
  is any function, \<open>JBigInt\<close> a BigInt, and \<open>JCircular\<close> an object that holds a
  reference to itself.
\<close>

datatype js_value =
    JUndefined
  | JNull
  | JBool bool
  | JNumber int
  | JString string
  | JArray "js_value list"
  | JObject "(string \<times> js_value) list"
  | JFunction
  | JBigInt int
  | JCircular

text \<open>
  A thrown value: an instance of \<open>Error\<close> (a \<open>TypeError\<close> is one) with its message, or
  any other value.
\<close>

datatype js_error = Error string | TypeError string | NonError js_value

definition instanceof_Error :: "js_error \<Rightarrow> bool" where
  "instanceof_Error e = (case e of NonError _ \<Rightarrow> False | _ \<Rightarrow> True)"

definition message :: "js_error \<Rightarrow> string" where
  "message e = (case e of Error m \<Rightarrow> m | TypeError m \<Rightarrow> m | NonError _ \<Rightarrow> [])"

subsection \<open>Numbers as text\<close>

definition digit_char :: "nat \<Rightarrow> char" where
  "digit_char d = char_of (48 + d)"

fun show_nat :: "nat \<Rightarrow> string" where
  "show_nat n = (if n < 10 then [digit_char n] else show_nat (n div 10) @ [digit_char (n mod 10)])"

declare show_nat.simps [simp del]

definition show_int :: "int \<Rightarrow> string" where
  "show_int i = (if i < 0 then CHR ''-'' # show_nat (nat (- i)) else show_nat (nat i))"

subsection \<open>JSON.stringify\<close>

text \<open>
  \<open>JSON.stringify\<close> throws a TypeError on a BigInt and on a circular structure, and
  yields \<open>undefined\<close> (here \<open>None\<close>) for \<open>undefined\<close> and for a function. Inside an array
  these two become \<open>null\<close>; a property that holds one of them is left out. The message
  of the TypeError is the engine's own; a fixed text stands for it.
\<close>

fun serializable :: "js_value \<Rightarrow> bool" where
  "serializable (JArray xs) = list_all serializable xs"
| "serializable (JObject ps) = list_all (\<lambda>p. serializable (snd p)) ps"
| "serializable (JBigInt n) = False"
| "serializable JCircular = False"
| "serializable v = True"

definition hex_char :: "nat \<Rightarrow> char" where
  "hex_char d = (if d < 10 then char_of (48 + d) else char_of (87 + d))"

definition json_escape :: "char \<Rightarrow> string" where
  "json_escape c =
     (let n = (of_char c :: nat) in
      if n = 34 then [CHR 0x5C, CHR 0x22]
      else if n = 92 then [CHR 0x5C, CHR 0x5C]
      else if n = 8 then [CHR 0x5C, CHR ''b'']
      else if n = 12 then [CHR 0x5C, CHR ''f'']
      else if n = 10 then [CHR 0x5C, CHR ''n'']
      else if n = 13 then [CHR 0x5C, CHR ''r'']
      else if n = 9 then [CHR 0x5C, CHR ''t'']
      else if n < 32 then [CHR 0x5C, CHR ''u'', CHR ''0'', CHR ''0'', hex_char (n div 16), hex_char (n mod 16)]
      else [c])"

definition json_quote :: "string \<Rightarrow> string" where
  "json_quote s = CHR 0x22 # concat (map json_escape s) @ [CHR 0x22]"

fun join :: "string \<Rightarrow> string list \<Rightarrow> string" where
  "join sep [] = []"
| "join sep [x] = x"
| "join sep (x # y # ys) = x @ sep @ join sep (y # ys)"

definition omitted :: "js_value \<Rightarrow> bool" where
  "omitted v = (v = JUndefined \<or> v = JFunction)"

fun json_text :: "js_value \<Rightarrow> string" where
  "json_text JNull = ''null''"
| "json_text (JBool b) = (if b then ''true'' else ''false'')"
| "json_text (JNumber n) = show_int n"
| "json_text (JString s) = json_quote s"
| "json_text (JArray xs) =
     ''['' @ join '','' (map (\<lambda>v. if omitted v then ''null'' else json_text v) xs) @ '']''"
| "json_text (JObject ps) =
     ''{'' @ join '',''
              (map (\<lambda>p. json_quote (fst p) @ '':'' @ json_text (snd p))
                   (filter (\<lambda>p. \<not> omitted (snd p)) ps)) @ ''}''"
| "json_text v = []"

definition JSON_stringify :: "js_value \<Rightarrow> js_error + string option" where
  "JSON_stringify v =
     (if \<not> serializable v then Inl (TypeError ''cannot serialize'')
      else if omitted v then Inr None
      else Inr (Some (json_text v)))"

text \<open>
  \<open>Buffer.byteLength(s, 'utf8')\<close> is the length of the byte string. \<open>s.length\<close> counts
  UTF-16 code units: one for each code point of one to three bytes, two for each of four
  bytes, none for a continuation byte.
\<close>

definition byteLength :: "string \<Rightarrow> nat" where
  "byteLength s = length s"

definition utf16_units :: "char \<Rightarrow> nat" where
  "utf16_units c =
     (let n = (of_char c :: nat) in
      if n < 128 then 1 else if n < 192 then 0 else if n < 240 then 1 else 2)"

definition js_length :: "string \<Rightarrow> nat" where
  "js_length s = sum_list (map utf16_units s)"

section \<open>Watchers (watchers/base.ts, request.ts, query.ts, cache.ts, http-client.ts)\<close>

text \<open>
  What a watcher reads from its surroundings while it records: the two ids \<open>nanoid()\<close>
  would return, the time of \<open>new Date()\<close> and the reading of \<open>performance.now()\<close>,
  in whole milliseconds.
\<close>

record Env =
  nanoid_1 :: string
  nanoid_2 :: string
  Date_now :: int
  performance_now :: int

definition createEntry ::
  "Env \<Rightarrow> EntryType \<Rightarrow> 'c \<Rightarrow> string option \<Rightarrow> string list option \<Rightarrow> int option \<Rightarrow> int option
     \<Rightarrow> 'c Entry" where
  "createEntry env ty c batch tgs dur mem =
     \<lparr>entry_id = nanoid_1 env,
      batchId = (case batch of Some b \<Rightarrow> b | None \<Rightarrow> nanoid_2 env),
      type = ty,
      content = c,
      tags = (case tgs of Some ts \<Rightarrow> ts | None \<Rightarrow> []),
      createdAt = Date_now env,
      duration = dur,
      memoryUsage = mem\<rparr>"

definition toUpperCase_char :: "char \<Rightarrow> char" where
  "toUpperCase_char c =
     (if 97 \<le> (of_char c :: nat) \<and> (of_char c :: nat) \<le> 122
      then char_of ((of_char c :: nat) - 32) else c)"

definition toUpperCase :: "string \<Rightarrow> string" where
  "toUpperCase s = map toUpperCase_char s"

definition is_space :: "char \<Rightarrow> bool" where
  "is_space c = (let n = (of_char c :: nat) in (9 \<le> n \<and> n \<le> 13) \<or> n = 32)"


text \<open>\<open>Math.round(bytes / 1024)\<close>: the nearest whole number, a half rounding up.\<close>

definition round_KB :: "nat \<Rightarrow> nat" where
  "round_KB bytes = (2 * bytes + 1024) div 2048"

subsection \<open>RequestWatcher\<close>

record RequestWatcherOptions =
  rw_enabled :: bool
  rw_sizeLimit :: nat
  rw_ignorePaths :: "string list"
  rw_captureBody :: bool
  rw_captureResponse :: bool
  rw_hideHeaders :: "string list"

definition DEFAULT_SIZE_LIMIT :: nat where
  "DEFAULT_SIZE_LIMIT = 64"

definition DEFAULT_HIDE_HEADERS :: "string list" where
  "DEFAULT_HIDE_HEADERS = [''authorization'', ''cookie'', ''set-cookie'']"

definition orElse :: "'a option \<Rightarrow> 'a \<Rightarrow> 'a" where
  "orElse x d = (case x of Some v \<Rightarrow> v | None \<Rightarrow> d)"

definition RequestWatcher_new ::
  "bool option \<Rightarrow> nat option \<Rightarrow> string list option \<Rightarrow> bool option \<Rightarrow> bool option
     \<Rightarrow> string list option \<Rightarrow> RequestWatcherOptions" where
  "RequestWatcher_new en sl ip cb cr hh =
     \<lparr>rw_enabled = orElse en True,
      rw_sizeLimit = orElse sl DEFAULT_SIZE_LIMIT,
      rw_ignorePaths = orElse ip [''/_nodescope'', ''/favicon.ico''],
      rw_captureBody = orElse cb True,
      rw_captureResponse = orElse cr True,
      rw_hideHeaders = orElse hh DEFAULT_HIDE_HEADERS\<rparr>"

record ResponseData =
  res_status :: int
  res_headers :: "(string \<times> string) list"
  res_body :: js_value

record RequestData =
  rd_batchId :: string
  rd_startTime :: int
  rd_method :: string
  rd_url :: string
  rd_path :: string
  rd_query :: "(string \<times> js_value) list"
  rd_headers :: "(string \<times> string) list"
  rd_body :: js_value
  rd_ip :: "string option"
  rd_userAgent :: "string option"
  rd_session :: "js_value option"
  rd_response :: ResponseData
  rd_middleware :: "string list option"
  rd_controllerAction :: "string option"

record ResponseContent =
  rc_status :: int
  rc_headers :: "(string \<times> string) list"
  rc_body :: js_value
  rc_size :: "nat option"

record RequestEntryContent =
  rq_method :: string
  rq_url :: string
  rq_path :: string
  rq_query :: "(string \<times> js_value) list"
  rq_headers :: "(string \<times> string) list"
  rq_body :: js_value
  rq_ip :: "string option"
  rq_userAgent :: "string option"
  rq_session :: "js_value option"
  rq_response :: ResponseContent
  rq_middleware :: "string list option"
  rq_controllerAction :: "string option"

definition filterHeaders :: "RequestWatcherOptions \<Rightarrow> (string \<times> string) list \<Rightarrow> (string \<times> string) list" where
  "filterHeaders opts headers =
     map (\<lambda>kv. if toLowerCase (fst kv) \<in> set (rw_hideHeaders opts)
                then (fst kv, ''[HIDDEN]'') else kv) headers"

text \<open>
  \<open>truncateBody\<close> of the request watcher has no \<open>try\<close>: an exception of
  \<open>JSON.stringify\<close> leaves the function, and so does the TypeError of
  \<open>Buffer.byteLength(undefined)\<close> when \<open>JSON.stringify\<close> yields \<open>undefined\<close>.
\<close>

definition RequestWatcher_truncateBody :: "RequestWatcherOptions \<Rightarrow> js_value \<Rightarrow> js_error + js_value" where
  "RequestWatcher_truncateBody opts body =
     (if body = JUndefined \<or> body = JNull then Inr body
      else case JSON_stringify body of
             Inl err \<Rightarrow> Inl err
           | Inr None \<Rightarrow> Inl (TypeError ''argument must be a string'')
           | Inr (Some serialized) \<Rightarrow>
               if byteLength serialized > 1024 * rw_sizeLimit opts
               then Inr (JString (''[TRUNCATED - '' @ show_nat (round_KB (byteLength serialized))
                                   @ ''KB exceeds '' @ show_nat (rw_sizeLimit opts) @ ''KB limit]''))
               else Inr body)"

definition getBodySize :: "js_value \<Rightarrow> nat option" where
  "getBodySize body =
     (if body = JUndefined \<or> body = JNull then None
      else case JSON_stringify body of
             Inr (Some serialized) \<Rightarrow> Some (byteLength serialized)
           | _ \<Rightarrow> None)"

definition generateTags :: "RequestEntryContent \<Rightarrow> string list" where
  "generateTags c =
     [''method:'' @ rq_method c, ''status:'' @ show_int (rc_status (rq_response c))]
     @ (if rc_status (rq_response c) \<ge> 400 then [''error''] else [])
     @ (if rc_status (rq_response c) \<ge> 500 then [''server-error''] else [])"

definition RequestWatcher_record ::
  "Env \<Rightarrow> RequestWatcherOptions \<Rightarrow> RequestData \<Rightarrow> js_error + RequestEntryContent Entry option" where
  "RequestWatcher_record env opts d =
     (if list_ex (\<lambda>p. startsWith (rd_path d) p) (rw_ignorePaths opts) then Inr None
      else
        let dur = performance_now env - rd_startTime d;
            filteredHeaders = filterHeaders opts (rd_headers d);
            filteredResponseHeaders = filterHeaders opts (res_headers (rd_response d))
        in case (if rw_captureBody opts then RequestWatcher_truncateBody opts (rd_body d)
                 else Inr JUndefined) of
             Inl err \<Rightarrow> Inl err
           | Inr requestBody \<Rightarrow>
              (case (if rw_captureResponse opts
                     then RequestWatcher_truncateBody opts (res_body (rd_response d))
                     else Inr JUndefined) of
                 Inl err \<Rightarrow> Inl err
               | Inr responseBody \<Rightarrow>
                   let c = \<lparr>rq_method = toUpperCase (rd_method d),
                            rq_url = rd_url d,
                            rq_path = rd_path d,
                            rq_query = rd_query d,
                            rq_headers = filteredHeaders,
                            rq_body = requestBody,
                            rq_ip = rd_ip d,
                            rq_userAgent = rd_userAgent d,
                            rq_session = rd_session d,
                            rq_response =
                              \<lparr>rc_status = res_status (rd_response d),
                               rc_headers = filteredResponseHeaders,
                               rc_body = responseBody,
                               rc_size = getBodySize (res_body (rd_response d))\<rparr>,
                            rq_middleware = rd_middleware d,
                            rq_controllerAction = rd_controllerAction d\<rparr>
                   in Inr (Some (createEntry env Request c (Some (rd_batchId d))
                                   (Some (generateTags c)) (Some dur) None))))"

subsection \<open>QueryWatcher\<close>





record QueryEntryContent =
  sql :: string
  bindings :: "js_value list"
  connection :: string
  database :: "string option"
  slow :: bool
  rowCount :: "int option"



subsection \<open>The truncation of CacheWatcher and HttpClientWatcher\<close>

text \<open>
  Both functions serialize and measure inside a \<open>try\<close> block, whose \<open>catch\<close> returns the
  sentinel: for an exception of \<open>JSON.stringify\<close>, and for the TypeError of measuring
  \<open>undefined\<close>.
\<close>

definition CacheWatcher_truncateValue :: "js_value \<Rightarrow> js_value" where
  "CacheWatcher_truncateValue v =
     (if v = JUndefined \<or> v = JNull then v
      else case JSON_stringify v of
             Inr (Some serialized) \<Rightarrow>
               if js_length serialized > 1024
               then JString (''[TRUNCATED - '' @ show_nat (js_length serialized) @ '' bytes]'')
               else v
           | _ \<Rightarrow> JString ''[UNSERIALIZABLE]'')"

definition HttpClientWatcher_truncateBody :: "nat \<Rightarrow> js_value \<Rightarrow> js_value" where
  "HttpClientWatcher_truncateBody sizeLimit body =
     (if body = JUndefined \<or> body = JNull then body
      else case JSON_stringify body of
             Inr (Some serialized) \<Rightarrow>
               if byteLength serialized > 1024 * sizeLimit
               then JString (''[TRUNCATED - '' @ show_nat (round_KB (byteLength serialized)) @ ''KB]'')
               else body
           | _ \<Rightarrow> JString ''[UNSERIALIZABLE]'')"

section \<open>ApiHandler (server/api.ts)\<close>

subsection \<open>Promises and async functions\<close>

text \<open>
  A promise is looked at once it has settled. The body of an async function completes in
  one of three ways: it returns a plain value, it returns a promise (\<open>return p\<close> without
  \<open>await\<close>: the function's own promise then settles as \<open>p\<close> does), or it throws.
  \<open>await\<close> on a rejected promise throws the reason at that point; a \<open>catch\<close> clause
  sees what is thrown inside its \<open>try\<close> block and nothing else.
\<close>

datatype 'a promise = Fulfilled 'a | Rejected js_error

datatype 'a completion = Return 'a | ReturnPromise "'a promise" | Throw js_error

definition async :: "'a completion \<Rightarrow> 'a promise" where
  "async body = (case body of Return v \<Rightarrow> Fulfilled v | ReturnPromise p \<Rightarrow> p | Throw e \<Rightarrow> Rejected e)"

definition await :: "'a promise \<Rightarrow> ('a \<Rightarrow> 'b completion) \<Rightarrow> 'b completion" where
  "await p k = (case p of Fulfilled v \<Rightarrow> k v | Rejected e \<Rightarrow> Throw e)"

definition try_catch :: "'a completion \<Rightarrow> (js_error \<Rightarrow> 'a completion) \<Rightarrow> 'a completion" where
  "try_catch body handler = (case body of Throw e \<Rightarrow> handler e | _ \<Rightarrow> body)"

subsection \<open>Requests, responses and the storage adapter\<close>

datatype query_value = QString string | QArray "string list"

text \<open>
  \<open>req_pathname\<close> is what \<open>new URL(req.url, 'http://localhost').pathname\<close> evaluates to:
  the path, or the TypeError the constructor throws on an invalid URL. \<open>req_hours\<close> is
  \<open>body?.hours\<close>, and \<open>req_now\<close> the reading of \<open>Date.now()\<close>.
\<close>

record ApiRequest =
  req_method :: string
  req_pathname :: "js_error + string"
  req_query :: "string \<Rightarrow> query_value option"
  req_hours :: "int option"
  req_now :: int

text \<open>
  The options as \<open>listEntries\<close> builds them from the query strings: \<open>type\<close> is the
  string that is cast to \<open>EntryType\<close>, a date is the time value or \<open>None\<close> for an invalid
  Date, a number the integer or \<open>None\<close> for \<open>NaN\<close>.
\<close>

record ApiListOptions =
  lo_type :: "string option"
  lo_batchId :: "string option"
  lo_search :: "string option"
  lo_tags :: "string list option"
  lo_before :: "int option option"
  lo_after :: "int option option"
  lo_limit :: "int option option"
  lo_offset :: "int option option"

record StorageStats =
  totalEntries :: nat
  entriesByType_count :: "(EntryType \<times> nat) list"
  oldestEntry :: "int option"
  newestEntry :: "int option"

text \<open>
  The storage adapter as the handler meets it: each call yields a promise, which a
  failing driver rejects.
\<close>

record StorageAdapter =
  sa_list :: "ApiListOptions \<Rightarrow> PaginatedResult promise"
  sa_find :: "string \<Rightarrow> StoredEntry option promise"
  sa_findByBatch :: "string \<Rightarrow> StoredEntry list promise"
  sa_stats :: "StorageStats promise"
  sa_clear :: "unit promise"
  sa_prune :: "int \<Rightarrow> nat promise"

datatype ApiBody =
    ErrorBody string
  | ListBody PaginatedResult
  | EntryBody StoredEntry
  | BatchBody string "StoredEntry list"
  | StatsBody StorageStats
  | ClearedBody
  | PrunedBody nat int

record ApiResponse =
  status :: int
  body :: ApiBody

definition query_truthy :: "query_value option \<Rightarrow> bool" where
  "query_truthy q = (case q of None \<Rightarrow> False | Some (QString s) \<Rightarrow> s \<noteq> [] | Some (QArray xs) \<Rightarrow> True)"

definition String_of :: "query_value option \<Rightarrow> string" where
  "String_of q = (case q of None \<Rightarrow> ''undefined'' | Some (QString s) \<Rightarrow> s | Some (QArray xs) \<Rightarrow> join '','' xs)"

definition is_digit :: "char \<Rightarrow> bool" where
  "is_digit c = (48 \<le> (of_char c :: nat) \<and> (of_char c :: nat) \<le> 57)"

definition digits_value :: "string \<Rightarrow> nat" where
  "digits_value ds = foldl (\<lambda>acc c. 10 * acc + ((of_char c :: nat) - 48)) 0 ds"

definition parseInt :: "string \<Rightarrow> int option" where
  \<comment> \<open>\<open>parseInt(s, 10)\<close>: leading white space, a sign, then the longest run of digits.\<close>
  "parseInt s =
     (let t = dropWhile is_space s;
          neg = (t \<noteq> [] \<and> hd t = CHR ''-'');
          u = (if t \<noteq> [] \<and> (hd t = CHR ''-'' \<or> hd t = CHR ''+'') then tl t else t);
          ds = takeWhile is_digit u
      in if ds = [] then None
         else Some (if neg then - int (digits_value ds) else int (digits_value ds)))"

definition listEntries ::
  "(string \<Rightarrow> int option) \<Rightarrow> StorageAdapter \<Rightarrow> ApiRequest \<Rightarrow> ApiResponse promise" where
  "listEntries new_Date storage req =
     (let q = req_query req;
          options =
            \<lparr>lo_type = (if query_truthy (q ''type'') then Some (String_of (q ''type'')) else None),
             lo_batchId = (if query_truthy (q ''batchId'') then Some (String_of (q ''batchId'')) else None),
             lo_search = (if query_truthy (q ''search'') then Some (String_of (q ''search'')) else None),
             lo_tags = (if query_truthy (q ''tags'')
                        then Some (case q ''tags'' of Some (QArray xs) \<Rightarrow> xs
                                   | other \<Rightarrow> [String_of other])
                        else None),
             lo_before = (if query_truthy (q ''before'') then Some (new_Date (String_of (q ''before''))) else None),
             lo_after = (if query_truthy (q ''after'') then Some (new_Date (String_of (q ''after''))) else None),
             lo_limit = (if query_truthy (q ''limit'') then Some (parseInt (String_of (q ''limit''))) else None),
             lo_offset = (if query_truthy (q ''offset'') then Some (parseInt (String_of (q ''offset''))) else None)\<rparr>
      in async (await (sa_list storage options)
                  (\<lambda>result. Return \<lparr>status = 200, body = ListBody result\<rparr>)))"

definition getEntry :: "StorageAdapter \<Rightarrow> string \<Rightarrow> ApiResponse promise" where
  "getEntry storage i =
     async (await (sa_find storage i)
              (\<lambda>entry. case entry of
                          None \<Rightarrow> Return \<lparr>status = 404, body = ErrorBody ''Entry not found''\<rparr>
                        | Some e \<Rightarrow> Return \<lparr>status = 200, body = EntryBody e\<rparr>))"

definition getBatch :: "StorageAdapter \<Rightarrow> string \<Rightarrow> ApiResponse promise" where
  "getBatch storage b =
     async (await (sa_findByBatch storage b)
              (\<lambda>es. Return \<lparr>status = 200, body = BatchBody b es\<rparr>))"

definition getStats :: "StorageAdapter \<Rightarrow> ApiResponse promise" where
  "getStats storage =
     async (await (sa_stats storage) (\<lambda>stats. Return \<lparr>status = 200, body = StatsBody stats\<rparr>))"

definition clearEntries :: "StorageAdapter \<Rightarrow> ApiResponse promise" where
  "clearEntries storage =
     async (await (sa_clear storage) (\<lambda>u. Return \<lparr>status = 200, body = ClearedBody\<rparr>))"

definition pruneEntries :: "StorageAdapter \<Rightarrow> ApiRequest \<Rightarrow> ApiResponse promise" where
  "pruneEntries storage req =
     (let hours = orElse (req_hours req) 24;
          beforeDate = req_now req - hours * 60 * 60 * 1000
      in async (await (sa_prune storage beforeDate)
                  (\<lambda>pruned. Return \<lparr>status = 200, body = PrunedBody pruned hours\<rparr>)))"

text \<open>
  The two patterns of \<open>handle\<close>, \<open>/^\/api\/entries\/[^/]+$/\<close> and
  \<open>/^\/api\/batch\/[^/]+$/\<close>: the prefix, then one or more characters other than a slash.
  \<open>path.split('/').pop()\<close> is what follows the last slash.
\<close>

definition matches_one_segment :: "string \<Rightarrow> string \<Rightarrow> bool" where
  "matches_one_segment prefix path =
     (startsWith path prefix \<and> drop (length prefix) path \<noteq> []
      \<and> CHR ''/'' \<notin> set (drop (length prefix) path))"

definition pop_segment :: "string \<Rightarrow> string" where
  "pop_segment path = rev (takeWhile (\<lambda>c. c \<noteq> CHR ''/'') (rev path))"

text \<open>
  \<open>handle\<close>: the URL is parsed before the \<open>try\<close> block; inside it every route ends in
  \<open>return this.<method>(...)\<close>, which returns the promise of the route's method. The
  \<open>catch\<close> clause logs the error to the console and returns the response of status 500.
\<close>

definition handle ::
  "(string \<Rightarrow> int option) \<Rightarrow> StorageAdapter \<Rightarrow> ApiRequest \<Rightarrow> ApiResponse promise" where
  "handle new_Date storage req =
     async
       (case req_pathname req of
          Inl err \<Rightarrow> Throw err
        | Inr path \<Rightarrow>
            try_catch
              (if req_method req = ''GET'' \<and> path = ''/api/entries''
                 then ReturnPromise (listEntries new_Date storage req)
               else if req_method req = ''GET'' \<and> matches_one_segment ''/api/entries/'' path
                 then ReturnPromise (getEntry storage (pop_segment path))
               else if req_method req = ''GET'' \<and> matches_one_segment ''/api/batch/'' path
                 then ReturnPromise (getBatch storage (pop_segment path))
               else if req_method req = ''GET'' \<and> path = ''/api/stats''
                 then ReturnPromise (getStats storage)
               else if req_method req = ''DELETE'' \<and> path = ''/api/entries''
                 then ReturnPromise (clearEntries storage)
               else if req_method req = ''POST'' \<and> path = ''/api/prune''
                 then ReturnPromise (pruneEntries storage req)
               else Return \<lparr>status = 404, body = ErrorBody ''Not found''\<rparr>)
              (\<lambda>error. Return \<lparr>status = 500,
                                 body = ErrorBody (if instanceof_Error error then message error
                                                   else ''Internal server error'')\<rparr>))"

section \<open>RealTimeServer (server/realtime.ts)\<close>

text \<open>
  The timers of the platform: the periodic tasks that are scheduled, each with its
  handle and its period, and the next handle \<open>setInterval\<close> will hand out. A handle is
  a \<open>Timeout\<close> object and is truthy. Of the server the heartbeat fields are kept; the
  set of clients is not touched by starting or stopping the heartbeat.
\<close>

record Timers =
  scheduled :: "(nat \<times> nat) list"
  next_handle :: nat

definition setInterval :: "nat \<Rightarrow> Timers \<Rightarrow> nat \<times> Timers" where
  "setInterval ms t =
     (next_handle t,
      t\<lparr>scheduled := scheduled t @ [(next_handle t, ms)], next_handle := Suc (next_handle t)\<rparr>)"

definition clearInterval :: "nat \<Rightarrow> Timers \<Rightarrow> Timers" where
  "clearInterval h t = t\<lparr>scheduled := filter (\<lambda>p. fst p \<noteq> h) (scheduled t)\<rparr>"

record RealTimeServer =
  heartbeatInterval :: "nat option"
  heartbeatMs :: nat

definition RealTimeServer_new :: "nat option \<Rightarrow> RealTimeServer" where
  "RealTimeServer_new hb = \<lparr>heartbeatInterval = None, heartbeatMs = orElse hb 30000\<rparr>"

definition startHeartbeat :: "RealTimeServer \<times> Timers \<Rightarrow> RealTimeServer \<times> Timers" where
  "startHeartbeat s =
     (case heartbeatInterval (fst s) of
        Some h \<Rightarrow> s
      | None \<Rightarrow>
          (let r = setInterval (heartbeatMs (fst s)) (snd s)
           in ((fst s)\<lparr>heartbeatInterval := Some (fst r)\<rparr>, snd r)))"

definition stopHeartbeat :: "RealTimeServer \<times> Timers \<Rightarrow> RealTimeServer \<times> Timers" where
  "stopHeartbeat s =
     (case heartbeatInterval (fst s) of
        Some h \<Rightarrow> ((fst s)\<lparr>heartbeatInterval := None\<rparr>, clearInterval h (snd s))
      | None \<Rightarrow> s)"

section \<open>The list contract in the words of the specification\<close>

text \<open>
  An entry matches a list request when it passes every filter that is supplied: the
  type, the batch, any one of the tags, the search text as a substring of the serialized
  content without regard to case, and the two exclusive bounds on \<open>createdAt\<close>. A
  filter is supplied when its option is present and not empty.
\<close>

definition spec_matches :: "ListOptions \<Rightarrow> StoredEntry \<Rightarrow> bool" where
  "spec_matches options e =
     ((case opt_type options of Some t \<Rightarrow> type e = t | None \<Rightarrow> True) \<and>
      (if truthy (opt_batchId options) then batchId e = the (opt_batchId options) else True) \<and>
      (if tags_given (opt_tags options)
       then list_ex (\<lambda>t. t \<in> set (tags e)) (the (opt_tags options)) else True) \<and>
      (if truthy (opt_search options)
       then includes_str (toLowerCase (content e)) (toLowerCase (the (opt_search options)))
       else True) \<and>
      (case opt_before options of Some b \<Rightarrow> createdAt e < b | None \<Rightarrow> True) \<and>
      (case opt_after options of Some a \<Rightarrow> createdAt e > a | None \<Rightarrow> True))"

section \<open>Concrete entries, stores and requests\<close>

definition log_entry :: "string \<Rightarrow> string \<Rightarrow> string list \<Rightarrow> int \<Rightarrow> StoredEntry" where
  "log_entry i b ts t =
     \<lparr>entry_id = i, batchId = b, type = Log,
      content = ''{\"level\":\"info\",\"message\":\"Test message\"}'',
      tags = ts, createdAt = t, duration = None, memoryUsage = None\<rparr>"

definition no_options :: ListOptions where
  "no_options =
     \<lparr>opt_type = None, opt_batchId = None, opt_tags = None, opt_search = None,
      opt_before = None, opt_after = None, opt_limit = None, opt_offset = None\<rparr>"



definition rows_tagged :: table where
  "rows_tagged =
     SQLiteStorage_saveBatch [log_entry ''a'' ''b1'' [''x''] 1, log_entry ''b'' ''b1'' [] 2] []"

definition store_two_batches :: MemoryStorage where
  "store_two_batches =
     MemoryStorage_saveBatch [log_entry ''a'' ''b1'' [] 1, log_entry ''b'' ''b2'' [] 2]
       (MemoryStorage_new None)"

text \<open>Two entries with the same id that differ in every other field.\<close>

definition first_version :: StoredEntry where
  "first_version =
     \<lparr>entry_id = ''a'', batchId = ''b1'', type = Log, content = ''{\"n\":1}'',
      tags = [''one''], createdAt = 1, duration = Some 10, memoryUsage = Some 100\<rparr>"

definition second_version :: StoredEntry where
  "second_version =
     \<lparr>entry_id = ''a'', batchId = ''b2'', type = Request, content = ''{\"n\":2}'',
      tags = [''two''], createdAt = 2, duration = Some 20, memoryUsage = Some 200\<rparr>"

text \<open>
  A store with \<open>maxEntries = 10\<close> that holds ten entries, the first of them saved
  under the empty id.
\<close>

definition store_full :: MemoryStorage where
  "store_full =
     MemoryStorage_saveBatch
       (map (\<lambda>i. log_entry i ''b1'' [] 1)
            ['''', ''a1'', ''a2'', ''a3'', ''a4'', ''a5'', ''a6'', ''a7'', ''a8'', ''a9''])
       (MemoryStorage_new (Some 10))"

definition env_0 :: Env where
  "env_0 =
     \<lparr>nanoid_1 = ''id-1'', nanoid_2 = ''batch-1'', Date_now = 1700000000000,
      performance_now = 250\<rparr>"

definition request_with :: "js_value \<Rightarrow> int \<Rightarrow> RequestData" where
  "request_with b st =
     \<lparr>rd_batchId = ''b1'', rd_startTime = 100, rd_method = ''post'', rd_url = ''/users?x=1'',
      rd_path = ''/users'', rd_query = [(''x'', JString ''1'')],
      rd_headers = [(''Authorization'', ''Bearer t''), (''accept'', ''*/*'')],
      rd_body = b, rd_ip = None, rd_userAgent = None, rd_session = None,
      rd_response = \<lparr>res_status = st, res_headers = [], res_body = JUndefined\<rparr>,
      rd_middleware = None, rd_controllerAction = None\<rparr>"

definition default_request_watcher :: RequestWatcherOptions where
  "default_request_watcher = RequestWatcher_new None None None None None None"

text \<open>A storage adapter that has lost its connection: every call rejects.\<close>

definition failing_storage :: StorageAdapter where
  "failing_storage =
     \<lparr>sa_list = (\<lambda>opts. Rejected (Error ''connection lost'')),
      sa_find = (\<lambda>i. Rejected (Error ''connection lost'')),
      sa_findByBatch = (\<lambda>b. Rejected (Error ''connection lost'')),
      sa_stats = Rejected (Error ''connection lost''),
      sa_clear = Rejected (Error ''connection lost''),
      sa_prune = (\<lambda>t. Rejected (Error ''connection lost''))\<rparr>"

definition api_request :: "string \<Rightarrow> string \<Rightarrow> ApiRequest" where
  "api_request m p =
     \<lparr>req_method = m, req_pathname = Inr p, req_query = (\<lambda>k. None),
      req_hours = None, req_now = 1700000000000\<rparr>"

section \<open>MemoryStorage: the map keeps one entry per id\<close>

lemma entries_removeFromIndexes [simp]: "entries (removeFromIndexes e st) = entries st"
  by (simp add: removeFromIndexes_def)

lemma entries_addToIndexes [simp]: "entries (addToIndexes e st) = entries st"
  by (simp add: addToIndexes_def)

lemma delete_middle:
  assumes "distinct (map fst (pre @ (k, v) # rest))"
  shows "AList.delete k (pre @ (k, v) # rest) = pre @ rest"
proof -
  have "k \<notin> fst ` set pre" and "k \<notin> fst ` set rest" using assms by auto
  then have "AList.delete k pre = pre" and "AList.delete k rest = rest"
    by simp_all
  moreover have "AList.delete k (pre @ (k, v) # rest) = AList.delete k pre @ AList.delete k rest"
    by (induction pre) auto
  ultimately show ?thesis by simp
qed

lemma evict_distinct:
  "distinct (map fst (entries st)) \<Longrightarrow> distinct (map fst (entries (evict n ks st)))"
proof (induction n ks st rule: evict.induct)
  case (1 ks st)
  then show ?case by simp
next
  case (2 n st)
  then show ?case by simp
next
  case (3 n oldestKey ks st)
  then show ?case
    by (auto simp: Let_def AList.distinct_delete split: option.splits)
qed

lemma MemoryStorage_new_distinct: "distinct (map fst (entries (MemoryStorage_new n)))"
  by (simp add: MemoryStorage_new_def)

lemma MemoryStorage_save_distinct:
  "distinct (map fst (entries st)) \<Longrightarrow> distinct (map fst (entries (MemoryStorage_save e st)))"
  by (simp add: MemoryStorage_save_def Let_def evict_distinct AList.distinct_update)

lemma MemoryStorage_saveBatch_distinct:
  "distinct (map fst (entries st)) \<Longrightarrow> distinct (map fst (entries (MemoryStorage_saveBatch es st)))"
  by (induction es arbitrary: st) (simp_all add: MemoryStorage_save_distinct)

lemma MemoryStorage_clear_distinct: "distinct (map fst (entries (MemoryStorage_clear st)))"
  by (simp add: MemoryStorage_clear_def)

lemma maxEntries_removeFromIndexes [simp]: "maxEntries (removeFromIndexes e st) = maxEntries st"
  by (simp add: removeFromIndexes_def)

lemma maxEntries_addToIndexes [simp]: "maxEntries (addToIndexes e st) = maxEntries st"
  by (simp add: addToIndexes_def)

lemma maxEntries_evict [simp]: "maxEntries (evict n ks st) = maxEntries st"
  by (induction n ks st rule: evict.induct) (auto simp: Let_def split: option.splits)

lemma maxEntries_save [simp]: "maxEntries (MemoryStorage_save e st) = maxEntries st"
  by (simp add: MemoryStorage_save_def Let_def)

section \<open>save: replacement and eviction\<close>

text \<open>What \<open>find\<close> returns after a \<open>save\<close>, on each backend.\<close>

lemma find_after_MemoryStorage_save:
  "MemoryStorage_find (entry_id e) (MemoryStorage_save e st) = Some e"
  by (simp add: MemoryStorage_find_def MemoryStorage_save_def Let_def AList.update_conv')

lemma find_append_absent:
  "\<not> list_ex P xs \<Longrightarrow> List.find P (xs @ ys) = List.find P ys"
  by (induction xs) auto

lemma find_after_SQLiteStorage_save:
  "SQLiteStorage_find (entry_id e) (SQLiteStorage_save e rows) = Some e"
proof -
  have "\<not> list_ex (\<lambda>r. entry_id r = entry_id e) (filter (\<lambda>r. entry_id r \<noteq> entry_id e) rows)"
    by (simp add: list_ex_iff)
  then show ?thesis
    by (simp add: SQLiteStorage_find_def SQLiteStorage_save_def find_append_absent)
qed

lemma find_after_sql_upsert:
  assumes "List.find (\<lambda>r. entry_id r = entry_id e) rows = Some r"
  shows "List.find (\<lambda>r. entry_id r = entry_id e) (sql_upsert e rows)
           = Some (r\<lparr>content := content e, tags := tags e,
                      duration := duration e, memoryUsage := memoryUsage e\<rparr>)"
proof -
  have ex: "list_ex (\<lambda>r. entry_id r = entry_id e) rows"
    using assms by (auto simp: list_ex_iff find_Some_iff)
  have "List.find (\<lambda>r. entry_id r = entry_id e)
          (map (\<lambda>r. if entry_id r = entry_id e
                     then r\<lparr>content := content e, tags := tags e,
                            duration := duration e, memoryUsage := memoryUsage e\<rparr>
                     else r) rows)
        = Some (r\<lparr>content := content e, tags := tags e,
                   duration := duration e, memoryUsage := memoryUsage e\<rparr>)"
    using assms by (induction rows) (auto split: if_splits)
  then show ?thesis using ex by (simp add: sql_upsert_def)
qed

text \<open>
  C2. A second \<open>save\<close> under the same id overwrites content, tags, duration and
  memoryUsage and keeps the stored batchId, type and createdAt. MySQLStorage and
  PostgreSQLStorage do so; MemoryStorage and SQLiteStorage replace the whole entry, so
  that \<open>find\<close> returns the batchId, type and createdAt of the second save.
\<close>

theorem second_save_replaces_batchId_type_createdAt:
  "MemoryStorage_find ''a''
       (MemoryStorage_save second_version (MemoryStorage_save first_version (MemoryStorage_new None)))
     = Some second_version
   \<and> SQLiteStorage_find ''a'' (SQLiteStorage_save second_version (SQLiteStorage_save first_version []))
     = Some second_version
   \<and> MySQLStorage_find ''a'' (MySQLStorage_save second_version (MySQLStorage_save first_version []))
     = Some (first_version\<lparr>content := content second_version, tags := tags second_version,
               duration := duration second_version, memoryUsage := memoryUsage second_version\<rparr>)
   \<and> PostgreSQLStorage_find ''a''
       (PostgreSQLStorage_save second_version (PostgreSQLStorage_save first_version []))
     = Some (first_version\<lparr>content := content second_version, tags := tags second_version,
               duration := duration second_version, memoryUsage := memoryUsage second_version\<rparr>)
   \<and> batchId second_version \<noteq> batchId first_version
   \<and> type second_version \<noteq> type first_version
   \<and> createdAt second_version \<noteq> createdAt first_version"
  by code_simp

text \<open>
  While no key is empty the eviction loop deletes the keys it reads: after \<open>n\<close> rounds
  the map has lost its first \<open>n\<close> entries.
\<close>

lemma delete_head:
  assumes "distinct (map fst ((k, v) # rest))"
  shows "AList.delete k ((k, v) # rest) = rest"
  using delete_middle [of "[]" k v rest] assms by simp

lemma evict_drops_oldest:
  assumes "map fst (entries st) = ks" and "distinct ks" and "[] \<notin> set ks"
  shows "entries (evict n ks st) = drop n (entries st)"
  using assms
proof (induction n ks st rule: evict.induct)
  case (1 ks st)
  then show ?case by simp
next
  case (2 n st)
  then show ?case by simp
next
  case (3 n oldestKey ks st)
  from "3.prems"(1) obtain v rest where es: "entries st = (oldestKey, v) # rest" and ks: "map fst rest = ks"
    by (cases "entries st") auto
  have ne: "oldestKey \<noteq> []" using "3.prems"(3) by auto
  let ?st = "(removeFromIndexes v st)\<lparr>entries := AList.delete oldestKey (entries (removeFromIndexes v st))\<rparr>"
  have d: "distinct (map fst ((oldestKey, v) # rest))" using "3.prems"(2) ks by simp
  have e: "entries ?st = rest" using es delete_head [OF d] by simp
  have step: "evict (Suc n) (oldestKey # ks) st = evict n ks ?st"
    using ne es by (simp add: Let_def)
  have "entries (evict n ks ?st) = drop n (entries ?st)"
    using "3.IH" ne es e ks "3.prems" by (simp add: Let_def)
  then show ?case using step e es by simp
qed

lemma length_update_le: "length (AList.update k v xs) \<le> Suc (length xs)"
  by (induction xs) auto

lemma save_evicts_oldest_when_full:
  assumes "distinct (map fst (entries st))" and "[] \<notin> fst ` set (entries st)"
    and "length (entries st) \<ge> maxEntries st"
  shows "entries (MemoryStorage_save e st)
           = AList.update (entry_id e) e (drop (maxEntries st div 10) (entries st))"
  using evict_drops_oldest [of st "map fst (entries st)" "maxEntries st div 10"] assms
  by (simp add: MemoryStorage_save_def Let_def)

text \<open>
  The bound where it holds: a store of at least ten places in which no id is empty
  stays within \<open>maxEntries\<close> under \<open>save\<close>.
\<close>

lemma save_keeps_bound_for_nonempty_ids:
  assumes "distinct (map fst (entries st))" and "[] \<notin> fst ` set (entries st)"
    and "10 \<le> maxEntries st" and "length (entries st) \<le> maxEntries st"
  shows "length (entries (MemoryStorage_save e st)) \<le> maxEntries (MemoryStorage_save e st)"
proof (cases "length (entries st) \<ge> maxEntries st")
  case True
  then have full: "length (entries st) = maxEntries st" using assms(4) by simp
  have "length (drop (maxEntries st div 10) (entries st)) < maxEntries st"
    using full assms(3) by simp
  then show ?thesis
    using save_evicts_oldest_when_full [OF assms(1,2) True, of e]
      length_update_le [of "entry_id e" e "drop (maxEntries st div 10) (entries st)"]
    by simp
next
  case False
  then show ?thesis
    using length_update_le [of "entry_id e" e "entries st"]
    by (simp add: MemoryStorage_save_def Let_def)
qed

text \<open>
  C10. The store holds at most \<open>maxEntries\<close> entries after every \<open>save\<close>. It does not
  when the oldest key is the empty string: the store below has \<open>maxEntries = 10\<close> and ten
  entries, the eviction loop reads the key \<open>''\<close>, finds it falsy and deletes nothing, and
  the save that follows leaves eleven entries, the oldest still findable.
\<close>

theorem save_exceeds_maxEntries_at_empty_id:
  "maxEntries store_full = 10
   \<and> length (entries store_full) = 10
   \<and> maxEntries (MemoryStorage_save (log_entry ''b'' ''b1'' [] 2) store_full) = 10
   \<and> length (entries (MemoryStorage_save (log_entry ''b'' ''b1'' [] 2) store_full)) = 11
   \<and> MemoryStorage_find '''' (MemoryStorage_save (log_entry ''b'' ''b1'' [] 2) store_full)
       = Some (log_entry '''' ''b1'' [] 1)"
  by code_simp

section \<open>prune\<close>

text \<open>
  The loop of \<open>prune\<close>, started in the middle of the map: the entries before the
  position are kept, those after it are kept when they are not older than the cutoff,
  and the counter grows by the number of the others.
\<close>

lemma prune_loop_spec:
  assumes "distinct (map fst (pre @ rest))" and "entries st = pre @ rest"
  shows "entries (snd (prune_loop c rest (n, st))) = pre @ filter (\<lambda>p. \<not> createdAt (snd p) < c) rest
       \<and> fst (prune_loop c rest (n, st)) = n + length (filter (\<lambda>p. createdAt (snd p) < c) rest)"
  using assms
proof (induction rest arbitrary: pre n st)
  case Nil
  then show ?case by simp
next
  case (Cons p rest)
  obtain i e where p: "p = (i, e)" by (cases p)
  show ?case
  proof (cases "createdAt e < c")
    case True
    let ?st = "(removeFromIndexes e st)\<lparr>entries := AList.delete i (entries (removeFromIndexes e st))\<rparr>"
    have d: "distinct (map fst (pre @ rest))" using Cons.prems(1) p by simp
    have e: "entries ?st = pre @ rest"
      using Cons.prems p delete_middle [of pre i e rest] by simp
    from Cons.IH [OF d e, of "n + 1"] True p show ?thesis by simp
  next
    case False
    have d: "distinct (map fst ((pre @ [p]) @ rest))" using Cons.prems(1) by simp
    have e: "entries st = (pre @ [p]) @ rest" using Cons.prems(2) by simp
    from Cons.IH [OF d e, of n] False p show ?thesis by simp
  qed
qed

lemma MemoryStorage_prune_entries:
  assumes "distinct (map fst (entries st))"
  shows "entries (snd (MemoryStorage_prune c st)) = filter (\<lambda>p. \<not> createdAt (snd p) < c) (entries st)"
    and "fst (MemoryStorage_prune c st) = length (filter (\<lambda>p. createdAt (snd p) < c) (entries st))"
  using prune_loop_spec [of "[]" "entries st" st c 0] assms
  by (simp_all add: MemoryStorage_prune_def)

lemma MemoryStorage_prune_distinct:
  assumes "distinct (map fst (entries st))"
  shows "distinct (map fst (entries (snd (MemoryStorage_prune c st))))"
  using assms by (simp add: MemoryStorage_prune_entries distinct_map_filter)



text \<open>
  A table holds each id once (\<open>id\<close> is its primary key), and the statements that write
  keep it so.
\<close>

lemma SQLiteStorage_save_distinct:
  "distinct (map entry_id rows) \<Longrightarrow> distinct (map entry_id (SQLiteStorage_save e rows))"
  by (auto simp: SQLiteStorage_save_def distinct_map_filter)

lemma sql_upsert_ids:
  "list_ex (\<lambda>r. entry_id r = entry_id e) rows \<Longrightarrow> map entry_id (sql_upsert e rows) = map entry_id rows"
  by (simp add: sql_upsert_def comp_def cong: map_cong)

lemma sql_upsert_distinct:
  "distinct (map entry_id rows) \<Longrightarrow> distinct (map entry_id (sql_upsert e rows))"
proof (cases "list_ex (\<lambda>r. entry_id r = entry_id e) rows")
  case True
  assume "distinct (map entry_id rows)"
  then show ?thesis using sql_upsert_ids [OF True] by simp
next
  case False
  assume "distinct (map entry_id rows)"
  then show ?thesis using False by (auto simp: sql_upsert_def list_ex_iff)
qed




section \<open>list and findByBatch\<close>

text \<open>
  With neither \<open>type\<close> nor \<open>batchId\<close> supplied MemoryStorage counts the entries that
  pass all the filters, the tags filter among them. The count of SQLiteStorage is the
  same whatever tags are supplied.
\<close>

lemma MemoryStorage_total_without_type_and_batch:
  assumes "opt_type options = None" and "\<not> truthy (opt_batchId options)"
  shows "total (MemoryStorage_list options st)
           = length (filter (spec_matches options) (map snd (entries st)))"
  using assms
  by (cases "opt_before options"; cases "opt_after options";
      cases "truthy (opt_search options)"; cases "tags_given (opt_tags options)")
     (auto simp: MemoryStorage_list_def Let_def spec_matches_def has_some_tag_def
           intro!: arg_cong [where f = length] filter_cong)

lemma sql_where_without_tags: "sql_where (options\<lparr>opt_tags := ts\<rparr>) = sql_where options"
  by (rule ext) (simp add: sql_where_def)

lemma SQLiteStorage_total_independent_of_tags:
  "total (SQLiteStorage_list (options\<lparr>opt_tags := ts\<rparr>) rows) = total (SQLiteStorage_list options rows)"
  by (simp add: SQLiteStorage_list_def sql_where_without_tags Let_def)

text \<open>
  C1. \<open>total\<close> is the number of entries that match all the supplied filters. With a tags
  filter SQLiteStorage counts the rows before it filters the page by tag: two rows, one
  of them tagged \<open>x\<close>, give \<open>total = 2\<close> for the one entry that matches. MemoryStorage
  ignores \<open>batchId\<close> when \<open>type\<close> is supplied too: two log entries of two batches give
  \<open>total = 2\<close> for the one entry of batch \<open>b1\<close>.
\<close>

theorem list_total_counts_entries_that_do_not_match:
  "total (SQLiteStorage_list (no_options\<lparr>opt_tags := Some [''x'']\<rparr>) rows_tagged) = 2
   \<and> length (filter (spec_matches (no_options\<lparr>opt_tags := Some [''x'']\<rparr>)) rows_tagged) = 1
   \<and> map entry_id (data (SQLiteStorage_list (no_options\<lparr>opt_tags := Some [''x'']\<rparr>) rows_tagged))
       = [''a'']
   \<and> total (MemoryStorage_list (no_options\<lparr>opt_type := Some Log, opt_batchId := Some ''b1''\<rparr>)
              store_two_batches) = 2
   \<and> length (filter (spec_matches (no_options\<lparr>opt_type := Some Log, opt_batchId := Some ''b1''\<rparr>))
                (map snd (entries store_two_batches))) = 1"
  by code_simp

text \<open>
  On the SQL backends \<open>findByBatch\<close> returns the rows of the batch, oldest first; the
  three agree. MemoryStorage sorts what its batch index yields, and \<open>list\<close> returns its
  page newest first.
\<close>

lemma SQL_findByBatch_exact:
  "set (SQLiteStorage_findByBatch b rows) = {r \<in> set rows. batchId r = b}
   \<and> length (SQLiteStorage_findByBatch b rows) = length (filter (\<lambda>r. batchId r = b) rows)
   \<and> sorted (map createdAt (SQLiteStorage_findByBatch b rows))
   \<and> MySQLStorage_findByBatch b rows = SQLiteStorage_findByBatch b rows
   \<and> PostgreSQLStorage_findByBatch b rows = SQLiteStorage_findByBatch b rows"
  by (auto simp: SQLiteStorage_findByBatch_def MySQLStorage_findByBatch_def
        PostgreSQLStorage_findByBatch_def)

lemma MemoryStorage_findByBatch_sorted:
  "sorted (map createdAt (MemoryStorage_findByBatch b st))"
  by (simp add: MemoryStorage_findByBatch_def split: option.splits)

lemma sorted_js_slice: "sorted (map f xs) \<Longrightarrow> sorted (map f (js_slice xs i j))"
  by (simp add: js_slice_def Let_def take_map [symmetric] drop_map [symmetric])

lemma MemoryStorage_list_newest_first:
  "sorted (map (\<lambda>e. - createdAt e) (data (MemoryStorage_list options st)))"
  by (simp add: MemoryStorage_list_def Let_def sorted_js_slice)

text \<open>
  C5. \<open>findByBatch(b)\<close> returns the stored entries of batch \<open>b\<close>, all of them and
  oldest first, where \<open>list\<close> returns newest first. After an id saved in
  batch \<open>b1\<close> is saved again in batch \<open>b2\<close>, the batch index of MemoryStorage still lists
  the id under \<open>b1\<close>, and \<open>findByBatch('b1')\<close> returns the entry of batch \<open>b2\<close>.
\<close>

theorem findByBatch_returns_entry_of_another_batch:
  "MemoryStorage_findByBatch ''b1''
       (MemoryStorage_save second_version (MemoryStorage_save first_version (MemoryStorage_new None)))
     = [second_version]
   \<and> batchId second_version = ''b2''"
  by code_simp

section \<open>Watchers\<close>

text \<open>
  On a path that is not ignored, with \<open>captureBody\<close> on, a body that \<open>JSON.stringify\<close>
  rejects makes \<open>RequestWatcher.record\<close> throw.
\<close>

lemma record_throws_on_unserializable_body:
  assumes "\<not> list_ex (\<lambda>p. startsWith (rd_path d) p) (rw_ignorePaths opts)"
    and "rw_captureBody opts" and "\<not> serializable (rd_body d)"
  shows "RequestWatcher_record env opts d = Inl (TypeError ''cannot serialize'')"
proof -
  have "rd_body d \<noteq> JUndefined" and "rd_body d \<noteq> JNull"
    using assms(3) by auto
  then have "RequestWatcher_truncateBody opts (rd_body d) = Inl (TypeError ''cannot serialize'')"
    using assms(3) by (simp add: RequestWatcher_truncateBody_def JSON_stringify_def)
  then show ?thesis
    using assms(1,2) by (simp add: RequestWatcher_record_def Let_def)
qed

text \<open>
  C3. \<open>record\<close> never throws. \<open>RequestWatcher.record\<close> does on a body that
  \<open>JSON.stringify\<close> cannot serialize: its \<open>truncateBody\<close> has no \<open>try\<close>. The truncation of
  CacheWatcher and HttpClientWatcher yields the sentinel on the same value.
\<close>

theorem RequestWatcher_record_throws_on_circular_body:
  "RequestWatcher_record env_0 default_request_watcher (request_with JCircular 200)
     = Inl (TypeError ''cannot serialize'')
   \<and> CacheWatcher_truncateValue JCircular = JString ''[UNSERIALIZABLE]''
   \<and> HttpClientWatcher_truncateBody 64 JCircular = JString ''[UNSERIALIZABLE]''"
  by code_simp


lemma generateTags_error: "(''error'' \<in> set (generateTags c)) = (rc_status (rq_response c) \<ge> 400)"
  by (simp add: generateTags_def)

lemma generateTags_server_error:
  "(''server-error'' \<in> set (generateTags c)) = (rc_status (rq_response c) \<ge> 500)"
  by (simp add: generateTags_def)

text \<open>
  C7. The tags of a recorded request are those \<open>generateTags\<close> derives from its content;
  they include \<open>error\<close> exactly when the status of the response is at least 400 and
  \<open>server-error\<close> exactly when it is at least 500.
\<close>

theorem request_tags_error_and_server_error:
  assumes "RequestWatcher_record env opts d = Inr (Some e)"
  shows "(''error'' \<in> set (tags e)) = (res_status (rd_response d) \<ge> 400)
       \<and> (''server-error'' \<in> set (tags e)) = (res_status (rd_response d) \<ge> 500)
       \<and> tags e = generateTags (content e)"
proof -
  from assms obtain c where e: "e = createEntry env Request c (Some (rd_batchId d)) (Some (generateTags c))
       (Some (performance_now env - rd_startTime d)) None"
    and c: "rc_status (rq_response c) = res_status (rd_response d)"
    by (auto simp: RequestWatcher_record_def Let_def split: if_splits sum.splits)
  then show ?thesis
    by (simp add: createEntry_def generateTags_error generateTags_server_error)
qed

text \<open>Status 404 gives \<open>error\<close> without \<open>server-error\<close>, status 503 gives both.\<close>

theorem request_tags_error_and_server_error_witness:
  "(case RequestWatcher_record env_0 default_request_watcher (request_with (JString ''hi'') 404) of
      Inr (Some e) \<Rightarrow> ''error'' \<in> set (tags e) \<and> ''server-error'' \<notin> set (tags e)
    | other \<Rightarrow> False)
   \<and> (case RequestWatcher_record env_0 default_request_watcher (request_with (JString ''hi'') 503) of
      Inr (Some e) \<Rightarrow> ''error'' \<in> set (tags e) \<and> ''server-error'' \<in> set (tags e)
    | other \<Rightarrow> False)"
proof -
  have j: "JSON_stringify (JString ''hi'') = Inr (Some [CHR 0x22, CHR ''h'', CHR ''i'', CHR 0x22])"
    by code_simp
  have "\<exists>e. RequestWatcher_record env_0 default_request_watcher (request_with (JString ''hi'') 404)
              = Inr (Some e)"
    by (simp add: RequestWatcher_record_def default_request_watcher_def RequestWatcher_new_def
          request_with_def orElse_def startsWith_def RequestWatcher_truncateBody_def Let_def j
          byteLength_def DEFAULT_SIZE_LIMIT_def)
  then obtain e1 where r1:
    "RequestWatcher_record env_0 default_request_watcher (request_with (JString ''hi'') 404) = Inr (Some e1)"
    by blast
  have "\<exists>e. RequestWatcher_record env_0 default_request_watcher (request_with (JString ''hi'') 503)
              = Inr (Some e)"
    by (simp add: RequestWatcher_record_def default_request_watcher_def RequestWatcher_new_def
          request_with_def orElse_def startsWith_def RequestWatcher_truncateBody_def Let_def j
          byteLength_def DEFAULT_SIZE_LIMIT_def)
  then obtain e2 where r2:
    "RequestWatcher_record env_0 default_request_watcher (request_with (JString ''hi'') 503) = Inr (Some e2)"
    by blast
  have t1: "''error'' \<in> set (tags e1) \<and> ''server-error'' \<notin> set (tags e1)"
    using request_tags_error_and_server_error [OF r1, THEN conjunct1]
      request_tags_error_and_server_error [OF r1, THEN conjunct2, THEN conjunct1]
    by (simp add: request_with_def)
  have t2: "''error'' \<in> set (tags e2) \<and> ''server-error'' \<in> set (tags e2)"
    using request_tags_error_and_server_error [OF r2, THEN conjunct1]
      request_tags_error_and_server_error [OF r2, THEN conjunct2, THEN conjunct1]
    by (simp add: request_with_def)
  show ?thesis
    using r1 r2 t1 t2 by simp
qed

section \<open>ApiHandler\<close>

text \<open>
  On the route of \<open>listEntries\<close> the promise of \<open>handle\<close> is the promise of the method,
  and that one rejects when the storage adapter does.
\<close>

lemma handle_list_route:
  assumes "req_method req = ''GET''" and "req_pathname req = Inr ''/api/entries''"
  shows "handle new_Date storage req = listEntries new_Date storage req"
  using assms by (simp add: handle_def async_def try_catch_def)

lemma listEntries_rejects:
  assumes "\<And>options. sa_list storage options = Rejected err"
  shows "listEntries new_Date storage req = Rejected err"
  using assms by (simp add: listEntries_def async_def await_def Let_def)

text \<open>
  C8. \<open>handle\<close> answers a request that matches no route with status 404 and turns an
  error of the storage adapter into a response of status 500. The first holds. For the
  second, each route returns the promise of its method without awaiting it, so the
  \<open>catch\<close> clause never sees the rejection: on every route the promise of \<open>handle\<close>
  rejects with the error of the storage adapter.
\<close>

theorem handle_rejects_when_storage_rejects:
  "handle new_Date failing_storage (api_request ''GET'' ''/api/entries'') = Rejected (Error ''connection lost'')
   \<and> handle new_Date failing_storage (api_request ''GET'' ''/api/entries/abc'') = Rejected (Error ''connection lost'')
   \<and> handle new_Date failing_storage (api_request ''GET'' ''/api/batch/b1'') = Rejected (Error ''connection lost'')
   \<and> handle new_Date failing_storage (api_request ''GET'' ''/api/stats'') = Rejected (Error ''connection lost'')
   \<and> handle new_Date failing_storage (api_request ''DELETE'' ''/api/entries'') = Rejected (Error ''connection lost'')
   \<and> handle new_Date failing_storage (api_request ''POST'' ''/api/prune'') = Rejected (Error ''connection lost'')
   \<and> handle new_Date failing_storage (api_request ''GET'' ''/api/unknown'')
       = Fulfilled \<lparr>status = 404, body = ErrorBody ''Not found''\<rparr>"
  by (simp add: handle_def listEntries_def getEntry_def getBatch_def getStats_def clearEntries_def
        pruneEntries_def failing_storage_def api_request_def async_def await_def try_catch_def
        matches_one_segment_def startsWith_def pop_segment_def Let_def)

section \<open>RealTimeServer\<close>

text \<open>
  C9. Starting the heartbeat while it runs changes nothing: the server and the scheduled
  tasks stay as they are, so a second start schedules no second task. Stopping clears the
  handle and takes the task off the timers, and a start after a stop schedules a task
  again.
\<close>

theorem heartbeat_start_idempotent_stop_complete:
  "startHeartbeat (startHeartbeat s) = startHeartbeat s
   \<and> (case heartbeatInterval (fst s) of
         Some h \<Rightarrow> startHeartbeat s = s
       | None \<Rightarrow> scheduled (snd (startHeartbeat s))
                   = scheduled (snd s) @ [(next_handle (snd s), heartbeatMs (fst s))])
   \<and> length (scheduled (snd (startHeartbeat (startHeartbeat s)))) = length (scheduled (snd (startHeartbeat s)))
   \<and> heartbeatInterval (fst (stopHeartbeat s)) = None
   \<and> (case heartbeatInterval (fst s) of
         Some h \<Rightarrow> h \<notin> set (map fst (scheduled (snd (stopHeartbeat s))))
       | None \<Rightarrow> stopHeartbeat s = s)
   \<and> heartbeatInterval (fst (startHeartbeat (stopHeartbeat s))) = Some (next_handle (snd s))
   \<and> (next_handle (snd s), heartbeatMs (fst s)) \<in> set (scheduled (snd (startHeartbeat (stopHeartbeat s))))"
  by (auto simp: startHeartbeat_def stopHeartbeat_def setInterval_def clearInterval_def Let_def
        split: option.splits)

end
